theory Spec2Isabelle
  imports Complex_Main
begin

section \<open>Python values, exceptions and the world the decorators run in\<close>

text \<open>
  The decorators of \<^verbatim>\<open>decorators.py\<close> wrap an arbitrary callable. A callable may
  raise, print, take time, write files and change any state of its own, so a target is
  modelled as a function on an explicit world that returns either the exception it raised
  (\<open>Inl\<close>) or its return value (\<open>Inr\<close>).

  Exception classes form Python's single-inheritance hierarchy; \<open>mro\<close> lists a class and
  its bases, and \<open>isinstance\<close> is what an \<^verbatim>\<open>except C:\<close> clause tests.
\<close>

datatype exc_class =
    BaseException
  | SystemExit
  | KeyboardInterrupt
  | GeneratorExit
  | Exception
  | ValueError
  | TypeError
  | RuntimeError
  | NameError
  | UnboundLocalError
  | AttributeError
  | AssertionError
  | OSError
  | FileNotFoundError
  | UserClass string exc_class

fun mro :: "exc_class \<Rightarrow> exc_class list" where
  "mro BaseException = [BaseException]"
| "mro SystemExit = [SystemExit, BaseException]"
| "mro KeyboardInterrupt = [KeyboardInterrupt, BaseException]"
| "mro GeneratorExit = [GeneratorExit, BaseException]"
| "mro Exception = [Exception, BaseException]"
| "mro ValueError = [ValueError, Exception, BaseException]"
| "mro TypeError = [TypeError, Exception, BaseException]"
| "mro RuntimeError = [RuntimeError, Exception, BaseException]"
| "mro NameError = [NameError, Exception, BaseException]"
| "mro UnboundLocalError = [UnboundLocalError, NameError, Exception, BaseException]"
| "mro AttributeError = [AttributeError, Exception, BaseException]"
| "mro AssertionError = [AssertionError, Exception, BaseException]"
| "mro OSError = [OSError, Exception, BaseException]"
| "mro FileNotFoundError = [FileNotFoundError, OSError, Exception, BaseException]"
| "mro (UserClass n b) = UserClass n b # mro b"

text \<open>An exception object: its class and its message.\<close>

datatype exc = Exc exc_class string

fun class_of :: "exc \<Rightarrow> exc_class" where
  "class_of (Exc c m) = c"

definition isinstance :: "exc \<Rightarrow> exc_class \<Rightarrow> bool" where
  "isinstance e c = (c \<in> set (mro (class_of e)))"

text \<open>
  The values the modelled functions handle: \<open>FrameV\<close> is a \<^verbatim>\<open>pandas.DataFrame\<close>
  (header row and data rows), \<open>FloatV\<close> a float idealised as a real number, \<open>ModuleV\<close>,
  \<open>FunctionV\<close> and \<open>ClassV\<close> the objects a module namespace binds.
\<close>

datatype pyval =
    NoneV
  | BoolV bool
  | IntV int
  | FloatV real
  | StrV string
  | FrameV "string list list"
  | ModuleV string
  | FunctionV string
  | ClassV string

type_synonym result = "exc + pyval"

text \<open>
  Output lines. The timing line \<^verbatim>\<open>'Runtime of {}{:<30s}{:>10.5f} ms'\<close> is kept
  symbolic (prefix, function name, scaled duration): its rendering is float formatting.
  \<open>Traceback e\<close> stands for what \<^verbatim>\<open>traceback.print_tb(e.__traceback__)\<close> prints.
\<close>

datatype line = Text string | RuntimeLine string string real | Traceback exc

text \<open>
  The world a target can read and change: state of its own (\<open>user\<close>), the wall clock
  read by \<^verbatim>\<open>time.time()\<close> (seconds since the epoch), the two output streams, the
  files (content and modification time by path), and the namespace of the module
  \<^verbatim>\<open>decorators\<close>, which Python looks a global name up in at the moment the name is
  evaluated.
\<close>

record 'u world =
  user :: 'u
  clock :: real
  stdout :: "line list"
  stderr :: "line list"
  files :: "string \<Rightarrow> (pyval \<times> real) option"
  globals :: "string \<Rightarrow> pyval option"

text \<open>
  A function object: the attributes \<^verbatim>\<open>__name__\<close>, \<^verbatim>\<open>__code__.co_filename\<close>
  and \<^verbatim>\<open>__code__.co_firstlineno\<close> that \<^verbatim>\<open>_repr_func\<close> reads, and its body.
  \<open>'a\<close> is the type of the argument tuple \<^verbatim>\<open>(*args, **kwargs)\<close>, which every wrapper
  hands on unchanged.
\<close>

record ('a, 'u) pyfunc =
  func_name :: string
  co_filename :: string
  co_firstlineno :: nat
  body :: "'a \<Rightarrow> 'u world \<Rightarrow> result \<times> 'u world"

text \<open>
  A run is the world together with two observers that no target can reach: the number of
  invocations of the target so far, and the file operations the wrapper itself performed.
\<close>

datatype fs_event = Stat string | Read string | Write string

record 'u run =
  world :: "'u world"
  calls :: nat
  io :: "fs_event list"

definition invoke :: "('a, 'u) pyfunc \<Rightarrow> 'a \<Rightarrow> 'u run \<Rightarrow> result \<times> 'u run" where
  "invoke func args r =
     (case body func args (world r) of
        (res, w') \<Rightarrow> (res, r\<lparr>world := w', calls := calls r + 1\<rparr>))"

text \<open>\<open>after_calls func args i r\<close> is the run after \<open>i\<close> consecutive invocations.\<close>

fun after_calls :: "('a, 'u) pyfunc \<Rightarrow> 'a \<Rightarrow> nat \<Rightarrow> 'u run \<Rightarrow> 'u run" where
  "after_calls func args 0 r = r"
| "after_calls func args (Suc i) r = after_calls func args i (snd (invoke func args r))"

text \<open>
  \<open>raises_matching k c func args r\<close>: the next \<open>k\<close> consecutive invocations each raise
  an exception that an \<^verbatim>\<open>except c:\<close> clause catches.
\<close>

fun raises_matching :: "nat \<Rightarrow> exc_class \<Rightarrow> ('a, 'u) pyfunc \<Rightarrow> 'a \<Rightarrow> 'u run \<Rightarrow> bool" where
  "raises_matching 0 c func args r = True"
| "raises_matching (Suc k) c func args r =
     (case invoke func args r of
        (Inl e, r') \<Rightarrow> isinstance e c \<and> raises_matching k c func args r'
      | (Inr v, r') \<Rightarrow> False)"

text \<open>\<open>returns_all k func args r\<close>: the next \<open>k\<close> consecutive invocations all return.\<close>

fun returns_all :: "nat \<Rightarrow> ('a, 'u) pyfunc \<Rightarrow> 'a \<Rightarrow> 'u run \<Rightarrow> bool" where
  "returns_all 0 func args r = True"
| "returns_all (Suc k) func args r =
     (case invoke func args r of
        (Inl e, r') \<Rightarrow> False
      | (Inr v, r') \<Rightarrow> returns_all k func args r')"

definition py_print :: "line \<Rightarrow> 'u run \<Rightarrow> 'u run" where
  "py_print l r = r\<lparr>world := (world r)\<lparr>stdout := stdout (world r) @ [l]\<rparr>\<rparr>"

subsection \<open>The module namespace\<close>

text \<open>
  A name that a function body neither assigns nor finds in an enclosing function is a
  global: Python looks it up in the namespace of the module the function was defined in
  (then among the builtins) when the expression is evaluated, and raises \<^verbatim>\<open>NameError\<close>
  when it is not bound. \<open>module_globals\<close> is the namespace of \<^verbatim>\<open>decorators\<close> after
  its import: the names its top-level statements bind (the three \<^verbatim>\<open>import\<close>s of lines
  8-10, every \<^verbatim>\<open>def\<close> and the \<^verbatim>\<open>class\<close>), in source order. The model looks up
  dynamically the names that are read as globals but are not among them (none of which is
  a builtin); the names the file binds itself are taken as the file binds them.
\<close>

definition module_globals :: "string \<Rightarrow> pyval option" where
  "module_globals =
     map_of
       [(''os'', ModuleV ''os''), (''time'', ModuleV ''time''),
        (''functools'', ModuleV ''functools''),
        (''_repr_func'', FunctionV ''_repr_func''),
        (''chdir_back_and_forth'', FunctionV ''chdir_back_and_forth''),
        (''timing'', FunctionV ''timing''), (''Timing'', ClassV ''Timing''),
        (''deprecated'', FunctionV ''deprecated''),
        (''pass_except'', FunctionV ''pass_except''), (''repeat'', FunctionV ''repeat''),
        (''slow_down'', FunctionV ''slow_down''), (''retry'', FunctionV ''retry''),
        (''limit_run'', FunctionV ''limit_run''), (''timeout'', FunctionV ''timeout''),
        (''memorize'', FunctionV ''memorize''),
        (''reduce_query'', FunctionV ''reduce_query''),
        (''override_args'', FunctionV ''override_args''),
        (''force_input_arg'', FunctionV ''force_input_arg''),
        (''accepts'', FunctionV ''accepts''), (''returns'', FunctionV ''returns''),
        (''info'', FunctionV ''info''), (''wip_warning'', FunctionV ''wip_warning''),
        (''protected_symbol'', FunctionV ''protected_symbol'')]"

definition load_global :: "'u world \<Rightarrow> string \<Rightarrow> exc + pyval" where
  "load_global w x =
     (case globals w x of
        Some v \<Rightarrow> Inr v
      | None \<Rightarrow> Inl (Exc NameError (''name '' @ [CHR 0x27] @ x @ [CHR 0x27] @ '' is not defined'')))"

text \<open>
  A global used as a module (\<^verbatim>\<open>datetime.datetime\<close>, \<^verbatim>\<open>pd.read_csv\<close>): the name has to
  be bound, and to the module that has the attribute.
\<close>

definition the_module :: "'u world \<Rightarrow> string \<Rightarrow> string \<Rightarrow> exc + unit" where
  "the_module w x m =
     (case load_global w x of
        Inl e \<Rightarrow> Inl e
      | Inr v \<Rightarrow>
          if v = ModuleV m then Inr ()
          else Inl (Exc AttributeError (''object bound to '' @ x @ '' is not the module '' @ m)))"

subsection \<open>Diagnostics helper\<close>

text \<open>\<^verbatim>\<open>str(n)\<close> for an integer, and \<^verbatim>\<open>_repr_func\<close> (lines 13-15).\<close>

definition digit :: "nat \<Rightarrow> char" where
  "digit d =
     (if d = 0 then CHR ''0'' else if d = 1 then CHR ''1'' else if d = 2 then CHR ''2''
      else if d = 3 then CHR ''3'' else if d = 4 then CHR ''4'' else if d = 5 then CHR ''5''
      else if d = 6 then CHR ''6'' else if d = 7 then CHR ''7'' else if d = 8 then CHR ''8''
      else CHR ''9'')"

fun str_nat :: "nat \<Rightarrow> string" where
  "str_nat n = (if n < 10 then [digit n] else str_nat (n div 10) @ [digit (n mod 10)])"

definition str_int :: "int \<Rightarrow> string" where
  "str_int i = (if i < 0 then CHR ''-'' # str_nat (nat (- i)) else str_nat (nat i))"

definition repr_func :: "('a, 'u) pyfunc \<Rightarrow> string" where
  "repr_func func =
     func_name func @ ''() in '' @ co_filename func @ '', line '' @ str_nat (co_firstlineno func)"

section \<open>Instrumentation: timing and Timing\<close>

text \<open>
  The options of \<^verbatim>\<open>timing\<close> (line 33) and of \<^verbatim>\<open>Timing.__init__\<close> (line 109). The
  option \<^verbatim>\<open>times\<close> is \<open>times_opt\<close> here (\<open>times\<close> is the multiplication of HOL).
  \<^verbatim>\<open>factor\<close> and the clock readings are floats, idealised as real numbers. A \<open>Timing\<close>
  object has the options and the counter \<^verbatim>\<open>self.time_run\<close>.
\<close>

record timing_opts =
  activate :: bool
  return_time :: bool
  factor :: real
  split_before :: bool
  split_after :: bool
  times_opt :: int

record Timing = timing_opts +
  time_run :: nat

text \<open>
  The loop \<^verbatim>\<open>for _ in range(times): ret = func(*args, **kwargs)\<close>. The local \<^verbatim>\<open>ret\<close>
  is unbound (\<open>None\<close>) until the first assignment; an exception of the target leaves the
  loop and the wrapper.
\<close>

fun run_times ::
  "nat \<Rightarrow> ('a, 'u) pyfunc \<Rightarrow> 'a \<Rightarrow> pyval option \<Rightarrow> 'u run \<Rightarrow> (exc + pyval option) \<times> 'u run" where
  "run_times 0 func args ret r = (Inr ret, r)"
| "run_times (Suc m) func args ret r =
     (case invoke func args r of
        (Inl e, r') \<Rightarrow> (Inl e, r')
      | (Inr v, r') \<Rightarrow> run_times m func args (Some v) r')"

text \<open>\<^verbatim>\<open>return ret\<close>: reading an unbound local raises \<^verbatim>\<open>UnboundLocalError\<close>.\<close>

definition return_ret :: "pyval option \<Rightarrow> result" where
  "return_ret ret =
     (case ret of
        None \<Rightarrow> Inl (Exc UnboundLocalError ''local variable ret referenced before assignment'')
      | Some v \<Rightarrow> Inr v)"

text \<open>
  The separator \<^verbatim>\<open>f"{' '+str(time_run)+' ':#^54}"\<close>: the text centred in 54 columns,
  filled with \<^verbatim>\<open>#\<close>, the odd column going to the right.
\<close>

definition center54 :: "string \<Rightarrow> string" where
  "center54 s =
     (let pad = 54 - length s; left = pad div 2
      in replicate left (CHR ''#'') @ s @ replicate (pad - left) (CHR ''#''))"

definition separator :: "nat \<Rightarrow> line" where
  "separator k = Text (center54 ('' '' @ str_nat k @ '' ''))"

text \<open>
  \<^verbatim>\<open>wrap_func\<close> of \<^verbatim>\<open>timing\<close>, lines 71-95. \<open>time_run0\<close> is the closure cell
  \<^verbatim>\<open>time_run\<close> when the call starts; the wrapper returns its new value.
\<close>

definition timing_wrap_func ::
  "timing_opts \<Rightarrow> ('a, 'u) pyfunc \<Rightarrow> 'a \<Rightarrow> nat \<Rightarrow> 'u run \<Rightarrow> result \<times> nat \<times> 'u run" where
  "timing_wrap_func opts func args time_run0 r =
     (let time1 = clock (world r) in
      case run_times (nat (times_opt opts)) func args None r of
        (Inl e, r1) \<Rightarrow> (Inl e, time_run0, r1)
      | (Inr ret, r1) \<Rightarrow>
          let time2 = clock (world r1);
              run_time = time2 - time1;
              r2 = (if split_before opts then py_print (separator time_run0) r1 else r1);
              time_run1 = (if split_before opts then time_run0 + 1 else time_run0);
              ti = (if times_opt opts = 1 then [] else ''x'' @ str_int (times_opt opts) @ '' '');
              r3 = py_print (RuntimeLine ti (func_name func) (run_time * factor opts)) r2;
              r4 = (if split_after opts then py_print (separator time_run1) r3 else r3);
              time_run2 = (if split_after opts then time_run1 + 1 else time_run1)
          in if return_time opts then (Inr (FloatV (run_time * factor opts)), time_run2, r4)
             else (return_ret ret, time_run2, r4))"

text \<open>
  Calling a function object that is not a wrapper: one invocation, and the cell of whatever
  decorator returned it stays as it is.
\<close>

definition plain_call ::
  "('a, 'u) pyfunc \<Rightarrow> 'a \<Rightarrow> 'c \<Rightarrow> 'u run \<Rightarrow> result \<times> 'c \<times> 'u run" where
  "plain_call func args cell r = (case invoke func args r of (res, r') \<Rightarrow> (res, cell, r'))"

text \<open>
  \<^verbatim>\<open>decor_timing\<close>, lines 68-99: the callable it returns is \<^verbatim>\<open>wrap_func\<close> when
  \<^verbatim>\<open>activate\<close> holds and \<^verbatim>\<open>func\<close> itself otherwise. (\<^verbatim>\<open>timing(func, ...)\<close> is
  \<^verbatim>\<open>decor_timing(func)\<close>, and \<^verbatim>\<open>timing(...)\<close> is \<^verbatim>\<open>decor_timing\<close>.)
\<close>

definition decor_timing ::
  "timing_opts \<Rightarrow> ('a, 'u) pyfunc \<Rightarrow> 'a \<Rightarrow> nat \<Rightarrow> 'u run \<Rightarrow> result \<times> nat \<times> 'u run" where
  "decor_timing opts func = (if activate opts then timing_wrap_func opts func else plain_call func)"

text \<open>\<^verbatim>\<open>v == 1\<close> for an arbitrary value \<open>v\<close>.\<close>

definition py_eq_int :: "pyval \<Rightarrow> int \<Rightarrow> bool" where
  "py_eq_int v i =
     (case v of
        IntV j \<Rightarrow> j = i
      | FloatV x \<Rightarrow> x = real_of_int i
      | BoolV b \<Rightarrow> (if b then 1 else 0) = i
      | _ \<Rightarrow> False)"

text \<open>
  \<^verbatim>\<open>wrap_func\<close> of \<^verbatim>\<open>Timing.__call__\<close>, lines 144-165. It reads the options from
  \<^verbatim>\<open>self\<close> at call time. Line 154 reads \<^verbatim>\<open>times\<close>, not \<^verbatim>\<open>self.times\<close>: no
  enclosing function has a local of that name, so it is a global.
\<close>

definition Timing_wrap_func ::
  "('a, 'u) pyfunc \<Rightarrow> 'a \<Rightarrow> Timing \<Rightarrow> 'u run \<Rightarrow> result \<times> Timing \<times> 'u run" where
  "Timing_wrap_func func args self r =
     (let time1 = clock (world r) in
      case run_times (nat (times_opt self)) func args None r of
        (Inl e, r1) \<Rightarrow> (Inl e, self, r1)
      | (Inr ret, r1) \<Rightarrow>
          let time2 = clock (world r1);
              run_time = time2 - time1;
              r2 = (if split_before self then py_print (separator (time_run self)) r1 else r1);
              self1 = (if split_before self then (self\<lparr>time_run := time_run self + 1\<rparr>) else self)
          in (case load_global (world r2) ''times'' of
                Inl e \<Rightarrow> (Inl e, self1, r2)
              | Inr times_v \<Rightarrow>
                  let ti = (if py_eq_int times_v 1 then []
                            else ''x'' @ str_int (times_opt self1) @ '' '');
                      r3 = py_print (RuntimeLine ti (func_name func) (run_time * factor self1)) r2;
                      r4 = (if split_after self1 then py_print (separator (time_run self1)) r3
                            else r3);
                      self2 = (if split_after self1 then (self1\<lparr>time_run := time_run self1 + 1\<rparr>)
                               else self1)
                  in if return_time self2
                     then (Inr (FloatV (run_time * factor self2)), self2, r4)
                     else (return_ret ret, self2, r4)))"

text \<open>\<^verbatim>\<open>Timing.__init__\<close>, lines 134-140, and \<^verbatim>\<open>Timing.__call__\<close>, lines 141-170.\<close>

definition Timing_init :: "bool \<Rightarrow> bool \<Rightarrow> real \<Rightarrow> bool \<Rightarrow> bool \<Rightarrow> int \<Rightarrow> Timing" where
  "Timing_init act rt fac sb sa tms =
     \<lparr>activate = act, return_time = rt, factor = fac, split_before = sb, split_after = sa,
      times_opt = tms, time_run = 0\<rparr>"

definition Timing_call ::
  "Timing \<Rightarrow> ('a, 'u) pyfunc \<Rightarrow> 'a \<Rightarrow> Timing \<Rightarrow> 'u run \<Rightarrow> result \<times> Timing \<times> 'u run" where
  "Timing_call self func = (if activate self then Timing_wrap_func func else plain_call func)"

section \<open>Resilience: retry\<close>

text \<open>
  \<^verbatim>\<open>retry(n, exception)\<close>, lines 275-299. The loop \<^verbatim>\<open>for _ in range(n)\<close> runs
  \<open>nat n\<close> times (not at all for \<open>n \<le> 0\<close>). \<open>retry_loop\<close> returns \<open>None\<close> when the loop
  ends without a return, and the wrapper then raises the \<^verbatim>\<open>ValueError\<close>.
\<close>

fun retry_loop ::
  "nat \<Rightarrow> exc_class \<Rightarrow> ('a, 'u) pyfunc \<Rightarrow> 'a \<Rightarrow> 'u run \<Rightarrow> result option \<times> 'u run" where
  "retry_loop 0 exception func args r = (None, r)"
| "retry_loop (Suc m) exception func args r =
     (case invoke func args r of
        (Inr v, r') \<Rightarrow> (Some (Inr v), r')
      | (Inl e, r') \<Rightarrow>
          if isinstance e exception then retry_loop m exception func args r'
          else (Some (Inl e), r'))"

definition retry_wrapper ::
  "int \<Rightarrow> exc_class \<Rightarrow> ('a, 'u) pyfunc \<Rightarrow> 'a \<Rightarrow> 'u run \<Rightarrow> result \<times> 'u run" where
  "retry_wrapper n exception func args r =
     (case retry_loop (nat n) exception func args r of
        (Some res, r') \<Rightarrow> (res, r')
      | (None, r') \<Rightarrow>
          (Inl (Exc ValueError (repr_func func @ '' exceeds '' @ str_int n @ '' retries'')), r'))"

section \<open>Resilience: pass_except\<close>

text \<open>
  \<^verbatim>\<open>pass_except(print_exception)\<close>, lines 210-219. The handler is
  \<^verbatim>\<open>except Exception as e\<close>: it catches the instances of \<^verbatim>\<open>Exception\<close>, prints the
  traceback to the error stream when asked to, and falls off the end of the function, which
  returns \<^verbatim>\<open>None\<close>. Any other exception leaves the wrapper.
\<close>

definition pass_except_wrapper ::
  "bool \<Rightarrow> ('a, 'u) pyfunc \<Rightarrow> 'a \<Rightarrow> 'u run \<Rightarrow> result \<times> 'u run" where
  "pass_except_wrapper print_exception func args r =
     (case invoke func args r of
        (Inr v, r') \<Rightarrow> (Inr v, r')
      | (Inl e, r') \<Rightarrow>
          if isinstance e Exception then
            (Inr NoneV,
             if print_exception
             then r'\<lparr>world := (world r')\<lparr>stderr := stderr (world r') @ [Traceback e]\<rparr>\<rparr>
             else r')
          else (Inl e, r'))"

section \<open>Resilience: limit_run\<close>

text \<open>
  \<^verbatim>\<open>limit_run(n)\<close>, lines 302-329. Applying the decorator (\<^verbatim>\<open>limit_run(n)(func)\<close>)
  runs \<^verbatim>\<open>inner\<close>, which creates the cell \<^verbatim>\<open>times_left = n\<close> and returns the wrapper;
  neither \<^verbatim>\<open>limit_run\<close> nor \<^verbatim>\<open>inner\<close> contains a check or a \<^verbatim>\<open>raise\<close>. The closure
  is the wrapper's state: the target, the bound and the cell. \<open>None\<close> is an unset bound.
  The result type of \<open>limit_run\<close> has room for an exception at decoration time.
\<close>

record ('a, 'u) limit_closure =
  lr_func :: "('a, 'u) pyfunc"
  lr_n :: "int option"
  times_left :: "int option"

definition limit_run :: "int option \<Rightarrow> ('a, 'u) pyfunc \<Rightarrow> exc + ('a, 'u) limit_closure" where
  "limit_run n func = Inr \<lparr>lr_func = func, lr_n = n, times_left = n\<rparr>"

text \<open>
  The wrapper decrements the cell before it invokes the target, so the decrement stays
  when the target raises. Comparing a cell that holds \<^verbatim>\<open>None\<close> with \<open>0\<close> is a
  \<^verbatim>\<open>TypeError\<close> in Python.
\<close>

definition limit_run_wrapper ::
  "('a, 'u) limit_closure \<Rightarrow> 'a \<Rightarrow> 'u run \<Rightarrow> result \<times> ('a, 'u) limit_closure \<times> 'u run" where
  "limit_run_wrapper c args r =
     (case lr_n c of
        None \<Rightarrow> (case invoke (lr_func c) args r of (res, r') \<Rightarrow> (res, c, r'))
      | Some n \<Rightarrow>
          (case times_left c of
             None \<Rightarrow>
               (Inl (Exc TypeError
                  ''not supported between instances of NoneType and int''), c, r)
           | Some t \<Rightarrow>
               if t > 0 then
                 (case invoke (lr_func c) args r of
                    (res, r') \<Rightarrow> (res, c\<lparr>times_left := Some (t - 1)\<rparr>, r'))
               else
                 (Inl (Exc RuntimeError
                    (repr_func (lr_func c) @ '' exceeds maximum run of '' @ str_int n
                       @ '' times'')), c, r)))"

text \<open>
  A caller that makes one outer call after the other on the same wrapper instance, with
  the arguments of the list: the results in order, the closure and the run it ends with.
\<close>

fun outer_calls ::
  "('c \<Rightarrow> 'a \<Rightarrow> 'r \<Rightarrow> result \<times> 'c \<times> 'r) \<Rightarrow> 'c \<Rightarrow> 'a list \<Rightarrow> 'r \<Rightarrow> result list \<times> 'c \<times> 'r" where
  "outer_calls wrapper c [] r = ([], c, r)"
| "outer_calls wrapper c (a # as) r =
     (case wrapper c a r of
        (res, c', r') \<Rightarrow>
          (case outer_calls wrapper c' as r' of
             (ress, c'', r'') \<Rightarrow> (res # ress, c'', r'')))"

section \<open>Freshness cache: reduce_query\<close>

text \<open>
  \<^verbatim>\<open>reduce_query(file_path, always_query)\<close>, lines 365-414. A calendar date is a day
  number; \<^verbatim>\<open>datetime.datetime.fromtimestamp(t).date()\<close> is \<open>date_of t\<close>, with the local
  time zone taken to be UTC. The wrapper's own steps take no time: only the target moves
  the clock. The file system is ideal: a path either has a file or not, and a write
  succeeds; a file holds the frame that \<^verbatim>\<open>to_csv\<close> wrote, which \<^verbatim>\<open>read_csv\<close>
  gives back.

  \<^verbatim>\<open>datetime\<close> and \<^verbatim>\<open>pd\<close> are read as globals (lines 395, 399, 400, 406, 411) and
  the file has no \<^verbatim>\<open>import datetime\<close> and no \<^verbatim>\<open>import pandas as pd\<close>.
\<close>

definition date_of :: "real \<Rightarrow> int" where
  "date_of t = \<lfloor>t / 86400\<rfloor>"

text \<open>\<^verbatim>\<open>datetime.datetime.now().date()\<close>.\<close>

definition now_date :: "'u world \<Rightarrow> exc + int" where
  "now_date w =
     (case the_module w ''datetime'' ''datetime'' of
        Inl e \<Rightarrow> Inl e
      | Inr ok \<Rightarrow> Inr (date_of (clock w)))"

text \<open>
  \<^verbatim>\<open>os.path.getmtime(file_path)\<close>: \<^verbatim>\<open>TypeError\<close> for \<^verbatim>\<open>None\<close>,
  \<^verbatim>\<open>FileNotFoundError\<close> for a path without a file.
\<close>

definition getmtime :: "string option \<Rightarrow> 'u run \<Rightarrow> (exc + real) \<times> 'u run" where
  "getmtime fp r =
     (case fp of
        None \<Rightarrow> (Inl (Exc TypeError ''stat: path should be string, not NoneType''), r)
      | Some p \<Rightarrow>
          (case files (world r) p of
             None \<Rightarrow> (Inl (Exc FileNotFoundError p), r\<lparr>io := io r @ [Stat p]\<rparr>)
           | Some (content, mtime) \<Rightarrow> (Inr mtime, r\<lparr>io := io r @ [Stat p]\<rparr>)))"

text \<open>
  The \<^verbatim>\<open>try\<close> block of lines 393-397: \<^verbatim>\<open>except FileNotFoundError\<close> turns that
  exception, from either statement, into \<^verbatim>\<open>file_date = None\<close>; any other leaves the
  wrapper.
\<close>

definition file_date_of :: "string option \<Rightarrow> 'u run \<Rightarrow> (exc + int option) \<times> 'u run" where
  "file_date_of fp r =
     (case getmtime fp r of
        (Inl e, r1) \<Rightarrow>
          if isinstance e FileNotFoundError then (Inr None, r1) else (Inl e, r1)
      | (Inr mtime, r1) \<Rightarrow>
          (case the_module (world r1) ''datetime'' ''datetime'' of
             Inl e \<Rightarrow> if isinstance e FileNotFoundError then (Inr None, r1) else (Inl e, r1)
           | Inr ok \<Rightarrow> (Inr (Some (date_of mtime)), r1)))"

text \<open>
  \<^verbatim>\<open>df.to_csv(file_path, index=False)\<close>: only a frame has the method; the file gets
  the clock as its modification time. \<^verbatim>\<open>pd.read_csv(file_path)\<close>.
\<close>

definition to_csv :: "pyval \<Rightarrow> string option \<Rightarrow> 'u run \<Rightarrow> (exc + unit) \<times> 'u run" where
  "to_csv d fp r =
     (case d of
        FrameV rows \<Rightarrow>
          (case fp of
             None \<Rightarrow> (Inr (), r)
           | Some p \<Rightarrow>
               (Inr (),
                r\<lparr>world := (world r)\<lparr>files := (files (world r))(p \<mapsto> (d, clock (world r)))\<rparr>,
                  io := io r @ [Write p]\<rparr>))
      | _ \<Rightarrow> (Inl (Exc AttributeError ''object has no attribute to_csv''), r))"

definition read_csv :: "string option \<Rightarrow> 'u run \<Rightarrow> result \<times> 'u run" where
  "read_csv fp r =
     (case the_module (world r) ''pd'' ''pandas'' of
        Inl e \<Rightarrow> (Inl e, r)
      | Inr ok \<Rightarrow>
          (case fp of
             None \<Rightarrow> (Inl (Exc ValueError ''Invalid file path or buffer object type''), r)
           | Some p \<Rightarrow>
               (case files (world r) p of
                  None \<Rightarrow> (Inl (Exc FileNotFoundError p), r\<lparr>io := io r @ [Read p]\<rparr>)
                | Some (content, mtime) \<Rightarrow> (Inr content, r\<lparr>io := io r @ [Read p]\<rparr>))))"

text \<open>
  The closure that \<^verbatim>\<open>inner\<close> creates (lines 379-381): the target, the two parameters, and
  the cells \<^verbatim>\<open>df\<close> and \<^verbatim>\<open>df_date\<close>, both \<^verbatim>\<open>None\<close> at first.
\<close>

record ('a, 'u) rq_closure =
  rq_func :: "('a, 'u) pyfunc"
  file_path :: "string option"
  always_query :: bool
  df :: pyval
  df_date :: "int option"

definition reduce_query ::
  "string option \<Rightarrow> bool \<Rightarrow> ('a, 'u) pyfunc \<Rightarrow> ('a, 'u) rq_closure" where
  "reduce_query fp aq func =
     \<lparr>rq_func = func, file_path = fp, always_query = aq, df = NoneV, df_date = None\<rparr>"

text \<open>
  The wrapper, lines 384-412. In the last branch \<^verbatim>\<open>df\<close> is assigned before
  \<^verbatim>\<open>to_csv\<close> runs and \<^verbatim>\<open>df_date\<close> after it, so an exception in between leaves
  \<^verbatim>\<open>df\<close> set and \<^verbatim>\<open>df_date\<close> as it was.
\<close>

definition reduce_query_wrapper ::
  "('a, 'u) rq_closure \<Rightarrow> 'a \<Rightarrow> 'u run \<Rightarrow> result \<times> ('a, 'u) rq_closure \<times> 'u run" where
  "reduce_query_wrapper c args r =
     (if always_query c then
        (case invoke (rq_func c) args r of (res, r') \<Rightarrow> (res, c, r'))
      else
        (case file_date_of (file_path c) r of
           (Inl e, r1) \<Rightarrow> (Inl e, c, r1)
         | (Inr file_date, r1) \<Rightarrow>
             (case now_date (world r1) of
                Inl e \<Rightarrow> (Inl e, c, r1)
              | Inr today \<Rightarrow>
                  let is_file_up_to_date = (file_date = Some today);
                      is_mem_up_to_date = (df_date c = Some today)
                  in if is_mem_up_to_date then
                       (if \<not> is_file_up_to_date then
                          (case to_csv (df c) (file_path c) r1 of
                             (Inl e, r2) \<Rightarrow> (Inl e, c, r2)
                           | (Inr ok, r2) \<Rightarrow> (Inr (df c), c, r2))
                        else (Inr (df c), c, r1))
                     else if is_file_up_to_date then
                       (case read_csv (file_path c) r1 of
                          (Inl e, r2) \<Rightarrow> (Inl e, c, r2)
                        | (Inr d, r2) \<Rightarrow> (Inr d, c\<lparr>df := d, df_date := file_date\<rparr>, r2))
                     else
                       (case invoke (rq_func c) args r1 of
                          (Inl e, r2) \<Rightarrow> (Inl e, c, r2)
                        | (Inr d, r2) \<Rightarrow>
                            (case to_csv d (file_path c) r2 of
                               (Inl e, r3) \<Rightarrow> (Inl e, c\<lparr>df := d\<rparr>, r3)
                             | (Inr ok, r3) \<Rightarrow>
                                 (case now_date (world r3) of
                                    Inl e \<Rightarrow> (Inl e, c\<lparr>df := d\<rparr>, r3)
                                  | Inr today' \<Rightarrow>
                                      (Inr d, c\<lparr>df := d, df_date := Some today'\<rparr>, r3)))))))"

section \<open>Example targets\<close>

text \<open>
  The target of the docstring of \<^verbatim>\<open>retry\<close>: with the global \<^verbatim>\<open>a\<close> as its state,
  \<^verbatim>\<open>while a < 2: a += 1; raise ValueError\<close>, then \<^verbatim>\<open>print('done')\<close>.
\<close>

definition do_sth :: "(unit, nat) pyfunc" where
  "do_sth =
     \<lparr>func_name = ''do_sth'', co_filename = ''example.py'', co_firstlineno = 3,
      body = (\<lambda>args w.
        if user w < 2 then (Inl (Exc ValueError []), w\<lparr>user := user w + 1\<rparr>)
        else (Inr NoneV, w\<lparr>stdout := stdout w @ [Text ''done'']\<rparr>))\<rparr>"

text \<open>A target that leaves the interpreter: \<^verbatim>\<open>sys.exit()\<close> raises \<^verbatim>\<open>SystemExit\<close>.\<close>

definition quit :: "(unit, nat) pyfunc" where
  "quit =
     \<lparr>func_name = ''quit'', co_filename = ''example.py'', co_firstlineno = 9,
      body = (\<lambda>args w. (Inl (Exc SystemExit []), w))\<rparr>"

text \<open>A target stopped by Ctrl-C: it raises \<^verbatim>\<open>KeyboardInterrupt\<close>.\<close>

definition interrupted :: "(unit, nat) pyfunc" where
  "interrupted =
     \<lparr>func_name = ''interrupted'', co_filename = ''example.py'', co_firstlineno = 15,
      body = (\<lambda>args w. (Inl (Exc KeyboardInterrupt []), w\<lparr>user := user w + 1\<rparr>))\<rparr>"

text \<open>The target of the docstring of \<^verbatim>\<open>limit_run\<close>: \<^verbatim>\<open>print('run')\<close>.\<close>

definition say_run :: "(unit, nat) pyfunc" where
  "say_run =
     \<lparr>func_name = ''say_run'', co_filename = ''example.py'', co_firstlineno = 6,
      body = (\<lambda>args w. (Inr NoneV, w\<lparr>stdout := stdout w @ [Text ''run'']\<rparr>))\<rparr>"

text \<open>
  The target of the docstring of \<^verbatim>\<open>timing\<close>: \<^verbatim>\<open>sleep(0.1); return 'yay'\<close>.
\<close>

definition yay :: "(unit, nat) pyfunc" where
  "yay =
     \<lparr>func_name = ''test'', co_filename = ''example.py'', co_firstlineno = 12,
      body = (\<lambda>args w. (Inr (StrV ''yay''), w\<lparr>user := user w + 1, clock := clock w + 1 / 10\<rparr>))\<rparr>"


text \<open>
  A query target: it returns a frame that holds the number of queries made before, so
  that two queries are told apart.
\<close>

definition query :: "(unit, nat) pyfunc" where
  "query =
     \<lparr>func_name = ''query_sth'', co_filename = ''example.py'', co_firstlineno = 20,
      body = (\<lambda>args w.
        (Inr (FrameV [[''id'', ''n''], [''1'', str_nat (user w)]]), w\<lparr>user := user w + 1\<rparr>))\<rparr>"

text \<open>
  The world right after \<^verbatim>\<open>import decorators\<close>, at the epoch, with no file, and the run
  that starts there.
\<close>

definition world0 :: "nat world" where
  "world0 =
     \<lparr>user = 0, clock = 0, stdout = [], stderr = [], files = (\<lambda>p. None),
      globals = module_globals\<rparr>"

definition run0 :: "nat run" where
  "run0 = \<lparr>world = world0, calls = 0, io = []\<rparr>"

text \<open>
  A namespace into which \<^verbatim>\<open>datetime\<close> and \<^verbatim>\<open>pandas\<close> (as \<^verbatim>\<open>pd\<close>) have been
  bound from outside, and a run at time \<open>t\<close> on it.
\<close>

definition with_imports :: "(string \<Rightarrow> pyval option) \<Rightarrow> string \<Rightarrow> pyval option" where
  "with_imports g = g(''datetime'' \<mapsto> ModuleV ''datetime'', ''pd'' \<mapsto> ModuleV ''pandas'')"


definition imported_run :: "real \<Rightarrow> nat run" where
  "imported_run t =
     \<lparr>world = world0\<lparr>clock := t, globals := with_imports module_globals\<rparr>, calls = 0, io = []\<rparr>"

section \<open>Properties of retry\<close>

lemma calls_invoke: "calls (snd (invoke func args r)) = Suc (calls r)"
  by (simp add: invoke_def split: prod.split)

lemma io_invoke: "io (snd (invoke func args r)) = io r"
  by (simp add: invoke_def split: prod.split)

lemma after_calls_Suc: "after_calls func args (Suc i) r = snd (invoke func args (after_calls func args i r))"
  by (induction i arbitrary: r) simp_all

lemma calls_after_calls: "calls (after_calls func args i r) = calls r + i"
  by (induction i arbitrary: r) (simp_all add: calls_invoke)

lemma retry_loop_returns:
  "raises_matching k c func args r \<Longrightarrow> k < m
   \<Longrightarrow> fst (invoke func args (after_calls func args k r)) = Inr v
   \<Longrightarrow> retry_loop m c func args r = (Some (Inr v), after_calls func args (Suc k) r)"
proof (induction k arbitrary: r m)
  case 0
  then obtain m' where m: "m = Suc m'" by (cases m) auto
  from 0 show ?case
    by (cases "invoke func args r") (simp add: m)
next
  case (Suc k)
  then obtain m' where m: "m = Suc m'" and km: "k < m'" by (cases m) auto
  from Suc.prems(1) obtain e r' where inv: "invoke func args r = (Inl e, r')"
    and e: "isinstance e c" and rest: "raises_matching k c func args r'"
    by (auto split: prod.splits sum.splits)
  from Suc.prems(3) inv have "fst (invoke func args (after_calls func args k r')) = Inr v"
    by simp
  from Suc.IH [OF rest km this] inv e show ?case
    by (simp add: m)
qed

lemma retry_loop_propagates:
  "raises_matching k c func args r \<Longrightarrow> k < m
   \<Longrightarrow> fst (invoke func args (after_calls func args k r)) = Inl e
   \<Longrightarrow> \<not> isinstance e c
   \<Longrightarrow> retry_loop m c func args r = (Some (Inl e), after_calls func args (Suc k) r)"
proof (induction k arbitrary: r m)
  case 0
  then obtain m' where m: "m = Suc m'" by (cases m) auto
  from 0 show ?case
    by (cases "invoke func args r") (simp add: m)
next
  case (Suc k)
  then obtain m' where m: "m = Suc m'" and km: "k < m'" by (cases m) auto
  from Suc.prems(1) obtain e' r' where inv: "invoke func args r = (Inl e', r')"
    and e': "isinstance e' c" and rest: "raises_matching k c func args r'"
    by (auto split: prod.splits sum.splits)
  from Suc.prems(3) inv have "fst (invoke func args (after_calls func args k r')) = Inl e"
    by simp
  from Suc.IH [OF rest km this Suc.prems(4)] inv e' show ?case
    by (simp add: m)
qed

lemma retry_loop_exhausts:
  "raises_matching m c func args r
   \<Longrightarrow> retry_loop m c func args r = (None, after_calls func args m r)"
proof (induction m arbitrary: r)
  case 0
  show ?case by simp
next
  case (Suc m)
  from Suc.prems obtain e r' where inv: "invoke func args r = (Inl e, r')"
    and e: "isinstance e c" and rest: "raises_matching m c func args r'"
    by (auto split: prod.splits sum.splits)
  from Suc.IH [OF rest] inv e show ?case
    by simp
qed

lemma do_sth_eval:
  "invoke do_sth () \<lparr>world = w, calls = c, io = i\<rparr> =
     (if user w < 2
      then (Inl (Exc ValueError []), \<lparr>world = w\<lparr>user := user w + 1\<rparr>, calls = c + 1, io = i\<rparr>)
      else (Inr NoneV,
            \<lparr>world = w\<lparr>stdout := stdout w @ [Text ''done'']\<rparr>, calls = c + 1, io = i\<rparr>))"
  by (simp add: invoke_def do_sth_def)

lemma repr_do_sth: "repr_func do_sth = ''do_sth() in example.py, line 3''"
  by (simp add: repr_func_def do_sth_def digit_def)

lemma calls_run0: "calls run0 = 0"
  by (simp add: run0_def)

text \<open>
  C1. Retry, the two outcomes of one outer call.
  If the target raises an exception matching the configured class on each of its first
  \<open>k\<close> consecutive invocations, with \<open>k < n\<close>, and returns \<open>v\<close> on the next one, the
  wrapper returns \<open>v\<close> and has invoked the target exactly \<open>k + 1\<close> times (the run it
  leaves is the run after \<open>k + 1\<close> invocations). If the target raises a matching
  exception on each of the first \<open>n\<close> invocations, the wrapper invokes it exactly \<open>n\<close>
  times and then raises the \<^verbatim>\<open>ValueError\<close> whose message names the function (by
  \<^verbatim>\<open>_repr_func\<close>) and \<open>n\<close>. The bound is a Python integer; \<open>nat n\<close> is \<open>n\<close> for every
  \<open>n \<ge> 0\<close>.
\<close>

theorem retry_returns_or_exhausts:
  "(raises_matching k exception func args r \<and> int k < n
      \<and> fst (invoke func args (after_calls func args k r)) = Inr v
    \<longrightarrow> retry_wrapper n exception func args r = (Inr v, after_calls func args (Suc k) r)
        \<and> calls (snd (retry_wrapper n exception func args r)) = calls r + (k + 1))
   \<and> (raises_matching (nat n) exception func args r
    \<longrightarrow> retry_wrapper n exception func args r =
          (Inl (Exc ValueError (repr_func func @ '' exceeds '' @ str_int n @ '' retries'')),
           after_calls func args (nat n) r)
        \<and> calls (snd (retry_wrapper n exception func args r)) = calls r + nat n)"
proof (intro conjI impI)
  assume h: "raises_matching k exception func args r \<and> int k < n
      \<and> fst (invoke func args (after_calls func args k r)) = Inr v"
  then have a: "raises_matching k exception func args r" and b: "int k < n"
    and c: "fst (invoke func args (after_calls func args k r)) = Inr v"
    by simp_all
  from b have kn: "k < nat n" by linarith
  have loop: "retry_loop (nat n) exception func args r
      = (Some (Inr v), after_calls func args (Suc k) r)"
    by (rule retry_loop_returns [OF a kn c])
  then show w: "retry_wrapper n exception func args r = (Inr v, after_calls func args (Suc k) r)"
    by (simp add: retry_wrapper_def)
  show "calls (snd (retry_wrapper n exception func args r)) = calls r + (k + 1)"
    by (simp add: w calls_after_calls calls_invoke)
next
  assume h: "raises_matching (nat n) exception func args r"
  then have loop: "retry_loop (nat n) exception func args r = (None, after_calls func args (nat n) r)"
    by (rule retry_loop_exhausts)
  then show w: "retry_wrapper n exception func args r =
          (Inl (Exc ValueError (repr_func func @ '' exceeds '' @ str_int n @ '' retries'')),
           after_calls func args (nat n) r)"
    by (simp add: retry_wrapper_def)
  show "calls (snd (retry_wrapper n exception func args r)) = calls r + nat n"
    by (simp add: w calls_after_calls)
qed

text \<open>
  The docstring's example: \<^verbatim>\<open>@retry(3)\<close> on \<^verbatim>\<open>do_sth\<close>, which fails twice, returns
  after three invocations; with \<^verbatim>\<open>@retry(2)\<close> both attempts fail and the wrapper raises.
\<close>

theorem retry_returns_or_exhausts_witness:
  "retry_wrapper 3 Exception do_sth () run0 = (Inr NoneV, after_calls do_sth () 3 run0)
   \<and> calls (snd (retry_wrapper 3 Exception do_sth () run0)) = 3
   \<and> fst (retry_wrapper 2 Exception do_sth () run0)
       = Inl (Exc ValueError ''do_sth() in example.py, line 3 exceeds 2 retries'')
   \<and> calls (snd (retry_wrapper 2 Exception do_sth () run0)) = 2"
proof -
  have fails: "raises_matching 2 Exception do_sth () run0"
    by (simp add: eval_nat_numeral do_sth_eval run0_def world0_def isinstance_def)
  have third: "fst (invoke do_sth () (after_calls do_sth () 2 run0)) = Inr NoneV"
    by (simp add: eval_nat_numeral do_sth_eval run0_def world0_def)
  have two: "str_int 2 = ''2''"
    by (simp add: str_int_def digit_def)
  from fails third retry_returns_or_exhausts [of 2 Exception do_sth "()" run0 3 NoneV]
    retry_returns_or_exhausts [of 2 Exception do_sth "()" run0 2 NoneV]
  show ?thesis
    by (simp add: repr_do_sth two calls_run0 calls_after_calls)
qed

text \<open>
  C8. Retry does not retry a non-matching exception.
  If, after \<open>k < n\<close> matching failures, an invocation raises an exception \<open>e\<close> that the
  configured class does not match, the wrapper raises \<open>e\<close> itself (not the
  \<^verbatim>\<open>ValueError\<close> of exhausted retries) and that invocation was the last: the target
  has been invoked \<open>k + 1\<close> times and the run is the one that invocation left.
\<close>

theorem retry_nonmatching_propagates:
  "raises_matching k exception func args r \<Longrightarrow> int k < n
   \<Longrightarrow> fst (invoke func args (after_calls func args k r)) = Inl e
   \<Longrightarrow> \<not> isinstance e exception
   \<Longrightarrow> retry_wrapper n exception func args r = (Inl e, after_calls func args (Suc k) r)
       \<and> calls (snd (retry_wrapper n exception func args r)) = calls r + (k + 1)"
proof -
  assume a: "raises_matching k exception func args r" and b: "int k < n"
    and c: "fst (invoke func args (after_calls func args k r)) = Inl e"
    and d: "\<not> isinstance e exception"
  from b have kn: "k < nat n" by linarith
  have "retry_loop (nat n) exception func args r
      = (Some (Inl e), after_calls func args (Suc k) r)"
    by (rule retry_loop_propagates [OF a kn c d])
  then have w: "retry_wrapper n exception func args r = (Inl e, after_calls func args (Suc k) r)"
    by (simp add: retry_wrapper_def)
  then show ?thesis
    by (simp add: calls_after_calls calls_invoke)
qed

text \<open>
  \<^verbatim>\<open>@retry(3, TypeError)\<close> on \<^verbatim>\<open>do_sth\<close>: its first \<^verbatim>\<open>ValueError\<close> is not a
  \<^verbatim>\<open>TypeError\<close> and leaves the wrapper after one invocation.
\<close>

theorem retry_nonmatching_propagates_witness:
  "fst (retry_wrapper 3 TypeError do_sth () run0) = Inl (Exc ValueError [])
   \<and> calls (snd (retry_wrapper 3 TypeError do_sth () run0)) = 1"
proof -
  have first: "fst (invoke do_sth () (after_calls do_sth () 0 run0)) = Inl (Exc ValueError [])"
    by (simp add: do_sth_eval run0_def world0_def)
  have other: "\<not> isinstance (Exc ValueError []) TypeError"
    by (simp add: isinstance_def)
  from retry_nonmatching_propagates [of 0 TypeError do_sth "()" run0 3 "Exc ValueError []"]
    first other
  show ?thesis
    by (simp add: calls_run0 calls_invoke)
qed

section \<open>Properties of pass_except\<close>

text \<open>
  C7, as the claim states it, fails: the handler has a restriction on the exception's
  kind. A target that raises \<^verbatim>\<open>SystemExit\<close> (which derives from \<^verbatim>\<open>BaseException\<close>,
  not from \<^verbatim>\<open>Exception\<close>) is not silenced, with either value of \<^verbatim>\<open>print_exception\<close>.
\<close>

theorem pass_except_propagates_SystemExit:
  "fst (invoke quit () run0) = Inl (Exc SystemExit [])
   \<and> fst (pass_except_wrapper False quit () run0) = Inl (Exc SystemExit [])
   \<and> fst (pass_except_wrapper True quit () run0) = Inl (Exc SystemExit [])"
  by (simp add: pass_except_wrapper_def invoke_def quit_def isinstance_def)

text \<open>
  C7, amended. For every target and every exception \<open>e\<close> it raises, after exactly one
  invocation of the target: if \<open>e\<close> is an instance of \<^verbatim>\<open>Exception\<close>, the wrapper
  returns \<^verbatim>\<open>None\<close> and does not propagate \<open>e\<close>; if \<open>e\<close> is not an instance of
  \<^verbatim>\<open>Exception\<close>, the wrapper raises \<open>e\<close> itself and leaves the run as the target
  left it. The exceptions of class \<^verbatim>\<open>SystemExit\<close>, \<^verbatim>\<open>KeyboardInterrupt\<close> and
  \<^verbatim>\<open>GeneratorExit\<close>, which derive only from \<^verbatim>\<open>BaseException\<close>, are of the second
  kind.
\<close>

theorem pass_except_catches_exactly_Exception:
  "fst (invoke func args r) = Inl e \<Longrightarrow>
     (isinstance e Exception \<longrightarrow>
        fst (pass_except_wrapper print_exception func args r) = Inr NoneV)
     \<and> (\<not> isinstance e Exception \<longrightarrow>
        pass_except_wrapper print_exception func args r = (Inl e, snd (invoke func args r)))
     \<and> (class_of e = SystemExit \<or> class_of e = KeyboardInterrupt \<or> class_of e = GeneratorExit
        \<longrightarrow> \<not> isinstance e Exception)
     \<and> calls (snd (pass_except_wrapper print_exception func args r)) = calls r + 1"
proof -
  assume raised: "fst (invoke func args r) = Inl e"
  obtain r' where inv: "invoke func args r = (Inl e, r')"
    using raised by (cases "invoke func args r") auto
  from calls_invoke [of func args r] inv have c: "calls r' = calls r + 1"
    by simp
  have kinds: "class_of e = SystemExit \<or> class_of e = KeyboardInterrupt \<or> class_of e = GeneratorExit
        \<longrightarrow> \<not> isinstance e Exception"
    by (auto simp: isinstance_def)
  from inv c kinds show ?thesis
    by (simp add: pass_except_wrapper_def)
qed

text \<open>
  The \<^verbatim>\<open>ValueError\<close> of \<^verbatim>\<open>do_sth\<close> is silenced; the \<^verbatim>\<open>KeyboardInterrupt\<close> of
  \<^verbatim>\<open>interrupted\<close> leaves the wrapper.
\<close>

theorem pass_except_catches_exactly_Exception_witness:
  "fst (pass_except_wrapper True do_sth () run0) = Inr NoneV
   \<and> calls (snd (pass_except_wrapper True do_sth () run0)) = 1
   \<and> fst (pass_except_wrapper True interrupted () run0) = Inl (Exc KeyboardInterrupt [])
   \<and> calls (snd (pass_except_wrapper True interrupted () run0)) = 1"
proof -
  have a: "fst (invoke do_sth () run0) = Inl (Exc ValueError [])"
    by (simp add: do_sth_eval run0_def world0_def)
  have b: "isinstance (Exc ValueError []) Exception"
    by (simp add: isinstance_def)
  have c: "fst (invoke interrupted () run0) = Inl (Exc KeyboardInterrupt [])"
    by (simp add: invoke_def interrupted_def)
  have d: "\<not> isinstance (Exc KeyboardInterrupt []) Exception"
    by (simp add: isinstance_def)
  from pass_except_catches_exactly_Exception [OF a, of True]
    pass_except_catches_exactly_Exception [OF c, of True] b d
  show ?thesis
    by (simp add: calls_run0 calls_invoke)
qed

section \<open>Properties of limit_run\<close>

lemma limit_run_wrapper_open:
  "lr_n c = Some n \<Longrightarrow> times_left c = Some t \<Longrightarrow> 0 < t
   \<Longrightarrow> limit_run_wrapper c args r =
       (fst (invoke (lr_func c) args r), c\<lparr>times_left := Some (t - 1)\<rparr>,
        snd (invoke (lr_func c) args r))"
  by (simp add: limit_run_wrapper_def split: prod.split)

lemma limit_run_wrapper_exhausted:
  "lr_n c = Some n \<Longrightarrow> times_left c = Some t \<Longrightarrow> t \<le> 0
   \<Longrightarrow> limit_run_wrapper c args r =
       (Inl (Exc RuntimeError
          (repr_func (lr_func c) @ '' exceeds maximum run of '' @ str_int n @ '' times'')), c, r)"
  by (simp add: limit_run_wrapper_def)

lemma limit_run_calls_invariant:
  "lr_n c = Some n \<Longrightarrow> times_left c = Some t \<Longrightarrow> 0 \<le> t
   \<Longrightarrow> outer_calls limit_run_wrapper c argss r = (ress, c', r')
   \<Longrightarrow> lr_n c' = Some n \<and> lr_func c' = lr_func c
       \<and> times_left c' = Some (t - int (min (length argss) (nat t)))
       \<and> calls r' = calls r + min (length argss) (nat t)"
proof (induction argss arbitrary: c t r ress c' r')
  case Nil
  then show ?case by simp
next
  case (Cons a as)
  show ?case
  proof (cases "0 < t")
    case True
    let ?c1 = "c\<lparr>times_left := Some (t - 1)\<rparr>"
    let ?r1 = "snd (invoke (lr_func c) a r)"
    from Cons.prems True
    have step: "limit_run_wrapper c a r = (fst (invoke (lr_func c) a r), ?c1, ?r1)"
      by (simp add: limit_run_wrapper_open)
    obtain ress1 where rest: "outer_calls limit_run_wrapper ?c1 as ?r1 = (ress1, c', r')"
      using Cons.prems(4) step by (auto split: prod.splits)
    have "lr_n c' = Some n \<and> lr_func c' = lr_func ?c1
       \<and> times_left c' = Some ((t - 1) - int (min (length as) (nat (t - 1))))
       \<and> calls r' = calls ?r1 + min (length as) (nat (t - 1))"
      using Cons.prems(1) True by (intro Cons.IH [OF _ _ _ rest]) simp_all
    with True show ?thesis
      by (auto simp: calls_invoke min_def)
  next
    case False
    with Cons.prems have t0: "t = 0" by simp
    from Cons.prems t0
    have step: "limit_run_wrapper c a r =
       (Inl (Exc RuntimeError
          (repr_func (lr_func c) @ '' exceeds maximum run of '' @ str_int n @ '' times'')), c, r)"
      by (simp add: limit_run_wrapper_exhausted)
    obtain ress1 where rest: "outer_calls limit_run_wrapper c as r = (ress1, c', r')"
      using Cons.prems(4) step by (auto split: prod.splits)
    from Cons.IH [OF Cons.prems(1) Cons.prems(2) Cons.prems(3) rest] t0 show ?thesis
      by simp
  qed
qed

lemma say_run_eval:
  "invoke say_run () r =
     (Inr NoneV, r\<lparr>world := (world r)\<lparr>stdout := stdout (world r) @ [Text ''run'']\<rparr>,
                  calls := calls r + 1\<rparr>)"
  by (simp add: invoke_def say_run_def)

lemma repr_say_run: "repr_func say_run = ''say_run() in example.py, line 6''"
  by (simp add: repr_func_def say_run_def digit_def)

lemma str_int_2: "str_int 2 = ''2''"
  by (simp add: str_int_def digit_def)

lemma str_int_0: "str_int 0 = ''0''"
  by (simp add: str_int_def digit_def)

text \<open>
  C3. Run quota. Take a wrapper made by \<^verbatim>\<open>limit_run(n)\<close> with a bound \<open>n \<ge> 0\<close>, and
  any sequence of outer calls made on it so far (\<open>argss\<close>, one argument tuple per call),
  whatever the target did in them. If fewer than \<open>n\<close> calls were made, the next call
  invokes the target exactly once and returns what it returns (or raises what it raises),
  every call so far having invoked it once. If \<open>n\<close> or more calls were made, the next
  call raises the \<^verbatim>\<open>RuntimeError\<close> naming the function and \<open>n\<close>, without invoking the
  target and without changing the closure or the run; the target has been invoked \<open>n\<close>
  times in all. The cell \<open>times_left\<close> is carried from call to call in the closure, is
  never negative and never increases.
\<close>

theorem limit_run_quota:
  "0 \<le> n \<Longrightarrow> limit_run (Some n) func = Inr c0
   \<Longrightarrow> outer_calls limit_run_wrapper c0 argss r = (ress, c, r1)
   \<Longrightarrow> (int (length argss) < n \<longrightarrow>
          limit_run_wrapper c args r1 =
            (fst (invoke func args r1), c\<lparr>times_left := Some (n - int (length argss) - 1)\<rparr>,
             snd (invoke func args r1))
          \<and> calls r1 = calls r + length argss
          \<and> calls (snd (snd (limit_run_wrapper c args r1))) = calls r1 + 1)
     \<and> (n \<le> int (length argss) \<longrightarrow>
          limit_run_wrapper c args r1 =
            (Inl (Exc RuntimeError
               (repr_func func @ '' exceeds maximum run of '' @ str_int n @ '' times'')), c, r1)
          \<and> calls r1 = calls r + nat n)
     \<and> (\<exists>t t'. times_left c = Some t \<and> 0 \<le> t
          \<and> times_left (fst (snd (limit_run_wrapper c args r1))) = Some t' \<and> t' \<le> t)"
proof -
  assume n: "0 \<le> n" and dec: "limit_run (Some n) func = Inr c0"
    and seq: "outer_calls limit_run_wrapper c0 argss r = (ress, c, r1)"
  from dec have c0: "lr_n c0 = Some n" "times_left c0 = Some n" "lr_func c0 = func"
    by (auto simp: limit_run_def)
  from limit_run_calls_invariant [OF c0(1) c0(2) n seq] c0(3)
  have inv: "lr_n c = Some n" "lr_func c = func"
    "times_left c = Some (n - int (min (length argss) (nat n)))"
    "calls r1 = calls r + min (length argss) (nat n)"
    by simp_all
  show ?thesis
  proof (cases "int (length argss) < n")
    case True
    then have m: "min (length argss) (nat n) = length argss" by linarith
    from True have pos: "0 < n - int (length argss)" by simp
    from inv(3) m have tl: "times_left c = Some (n - int (length argss))" by simp
    from inv(4) m have cr: "calls r1 = calls r + length argss" by simp
    from limit_run_wrapper_open [OF inv(1) tl pos, of args r1] inv(2) True tl cr show ?thesis
      by (simp add: calls_invoke)
  next
    case False
    with n have m: "min (length argss) (nat n) = nat n" by linarith
    from inv(3) m n have tl: "times_left c = Some 0" by simp
    from inv(4) m have cr: "calls r1 = calls r + nat n" by simp
    from limit_run_wrapper_exhausted [OF inv(1) tl, of args r1] inv(2) False tl cr show ?thesis
      by simp
  qed
qed


text \<open>
  \<^verbatim>\<open>limit_run(2)\<close> on the docstring's target: after one call the next call runs the
  target; after three calls (the third one refused) the next call is refused.
\<close>

theorem limit_run_quota_witness:
  "(case outer_calls limit_run_wrapper \<lparr>lr_func = say_run, lr_n = Some 2, times_left = Some 2\<rparr>
           [()] run0 of
      (ress, c, r1) \<Rightarrow>
        fst (limit_run_wrapper c () r1) = Inr NoneV
        \<and> calls r1 = 1 \<and> calls (snd (snd (limit_run_wrapper c () r1))) = 2)
   \<and> (case outer_calls limit_run_wrapper \<lparr>lr_func = say_run, lr_n = Some 2, times_left = Some 2\<rparr>
           [(), (), ()] run0 of
      (ress, c, r1) \<Rightarrow>
        limit_run_wrapper c () r1 =
          (Inl (Exc RuntimeError ''say_run() in example.py, line 6 exceeds maximum run of 2 times''),
           c, r1)
        \<and> calls r1 = 2)"
proof -
  let ?c0 = "\<lparr>lr_func = say_run, lr_n = Some 2, times_left = Some 2\<rparr> :: (unit, nat) limit_closure"
  have dec: "limit_run (Some 2) say_run = Inr ?c0"
    by (simp add: limit_run_def)
  obtain ress c r1 where one: "outer_calls limit_run_wrapper ?c0 [()] run0 = (ress, c, r1)"
    by (cases "outer_calls limit_run_wrapper ?c0 [()] run0") auto
  obtain ress' c' r1' where three:
    "outer_calls limit_run_wrapper ?c0 [(), (), ()] run0 = (ress', c', r1')"
    by (cases "outer_calls limit_run_wrapper ?c0 [(), (), ()] run0") auto
  from limit_run_quota [OF _ dec one, of "()"]
  have a: "fst (limit_run_wrapper c () r1) = Inr NoneV
        \<and> calls r1 = 1 \<and> calls (snd (snd (limit_run_wrapper c () r1))) = 2"
    by (simp add: say_run_eval calls_run0)
  from limit_run_quota [OF _ dec three, of "()"]
  have b: "limit_run_wrapper c' () r1' =
          (Inl (Exc RuntimeError ''say_run() in example.py, line 6 exceeds maximum run of 2 times''),
           c', r1')
        \<and> calls r1' = 2"
    by (simp add: repr_say_run str_int_2 calls_run0)
  from a b show ?thesis
    by (simp only: one three prod.case simp_thms)
qed

text \<open>
  C4, as the claim states it, fails: applying \<^verbatim>\<open>limit_run\<close> with the bound \<open>0\<close> or
  \<open>-1\<close> raises nothing; it returns the wrapper's closure.
\<close>

theorem limit_run_no_eager_check:
  "limit_run (Some 0) say_run = Inr \<lparr>lr_func = say_run, lr_n = Some 0, times_left = Some 0\<rparr>
   \<and> limit_run (Some (- 1)) say_run
       = Inr \<lparr>lr_func = say_run, lr_n = Some (- 1), times_left = Some (- 1)\<rparr>
   \<and> \<not> (\<exists>e. limit_run (Some 0) say_run = Inl e)"
  by (simp add: limit_run_def)

text \<open>
  C4, amended. Applying \<^verbatim>\<open>limit_run\<close> with a bound \<open>n \<le> 0\<close> raises no error at
  decoration time and returns a wrapper; every call of that wrapper raises the
  \<^verbatim>\<open>RuntimeError\<close> of the exceeded quota, without invoking the target.
\<close>

theorem limit_run_nonpositive_fails_at_call:
  "n \<le> 0 \<Longrightarrow>
     (\<exists>c. limit_run (Some n) func = Inr c
        \<and> limit_run_wrapper c args r =
            (Inl (Exc RuntimeError
               (repr_func func @ '' exceeds maximum run of '' @ str_int n @ '' times'')), c, r))"
  by (simp add: limit_run_def limit_run_wrapper_def)

theorem limit_run_nonpositive_fails_at_call_witness:
  "(\<exists>c. limit_run (Some 0) say_run = Inr c
        \<and> limit_run_wrapper c () run0 =
            (Inl (Exc RuntimeError ''say_run() in example.py, line 6 exceeds maximum run of 0 times''),
             c, run0))"
  using limit_run_nonpositive_fails_at_call [of 0 say_run "()" run0]
  by (simp add: repr_say_run str_int_0)

section \<open>Properties of timing and Timing\<close>

lemma calls_py_print: "calls (py_print l r) = calls r"
  by (simp add: py_print_def)

lemma run_times_returns:
  "returns_all (Suc m) func args r
   \<Longrightarrow> fst (invoke func args (after_calls func args m r)) = Inr v
   \<Longrightarrow> run_times (Suc m) func args ret r = (Inr (Some v), after_calls func args (Suc m) r)"
proof (induction m arbitrary: r ret)
  case 0
  then show ?case
    by (cases "invoke func args r") (auto split: sum.splits)
next
  case (Suc m)
  from Suc.prems(1) obtain v' r' where inv: "invoke func args r = (Inr v', r')"
    and rest: "returns_all (Suc m) func args r'"
    by (auto split: prod.splits sum.splits)
  from Suc.prems(2) inv have "fst (invoke func args (after_calls func args m r')) = Inr v"
    by simp
  from Suc.IH [OF rest this, of "Some v'"] inv show ?case
    by simp
qed

lemma yay_eval:
  "invoke yay () r =
     (Inr (StrV ''yay''),
      r\<lparr>world := (world r)\<lparr>user := user (world r) + 1, clock := clock (world r) + 1 / 10\<rparr>,
        calls := calls r + 1\<rparr>)"
  by (simp add: invoke_def yay_def)

lemma module_globals_times: "module_globals ''times'' = None"
  by (simp add: module_globals_def)

text \<open>
  C6. Timing, repeated runs. With \<^verbatim>\<open>activate\<close> true and \<^verbatim>\<open>times\<close> \<open>= m + 1\<close> (for
  \<^verbatim>\<open>times=3\<close>, \<open>m = 2\<close>), and a target whose \<open>m + 1\<close> invocations all return, the last
  of them returning \<open>v\<close>: the wrapper invokes the target exactly \<open>m + 1\<close> times; without
  \<^verbatim>\<open>return_time\<close> it returns \<open>v\<close>, the value of the last invocation, not a collection;
  with \<^verbatim>\<open>return_time\<close> it returns instead the elapsed time (clock after the last
  invocation minus clock at the start) multiplied by \<^verbatim>\<open>factor\<close>. The result is a single
  value, one or the other.
\<close>

theorem timing_runs_times_returns_last:
  "activate opts \<Longrightarrow> times_opt opts = int (Suc m) \<Longrightarrow> returns_all (Suc m) func args r
   \<Longrightarrow> fst (invoke func args (after_calls func args m r)) = Inr v
   \<Longrightarrow> calls (snd (snd (decor_timing opts func args cell r))) = calls r + Suc m
       \<and> (\<not> return_time opts \<longrightarrow> fst (decor_timing opts func args cell r) = Inr v)
       \<and> (return_time opts \<longrightarrow>
            fst (decor_timing opts func args cell r) =
              Inr (FloatV ((clock (world (after_calls func args (Suc m) r)) - clock (world r))
                           * factor opts)))"
proof -
  assume act: "activate opts" and t: "times_opt opts = int (Suc m)" and a: "returns_all (Suc m) func args r"
    and b: "fst (invoke func args (after_calls func args m r)) = Inr v"
  have n: "nat (times_opt opts) = Suc m"
    by (simp add: t)
  have loop: "run_times (nat (times_opt opts)) func args None r
      = (Inr (Some v), after_calls func args (Suc m) r)"
    unfolding n by (rule run_times_returns [OF a b])
  have c: "calls (after_calls func args (Suc m) r) = calls r + Suc m"
    by (rule calls_after_calls)
  show ?thesis
    using c act by (simp add: decor_timing_def timing_wrap_func_def loop Let_def calls_py_print return_ret_def
        del: after_calls.simps)
qed

text \<open>
  \<^verbatim>\<open>times=3\<close> on the docstring's target, which takes a tenth of a second: three
  invocations, the result \<^verbatim>\<open>'yay'\<close>, or 300 (milliseconds) with \<^verbatim>\<open>return_time\<close>.
\<close>

theorem timing_runs_times_returns_last_witness:
  "fst (decor_timing
          \<lparr>activate = True, return_time = False, factor = 1000, split_before = False,
           split_after = False, times_opt = 3\<rparr> yay () 0 run0) = Inr (StrV ''yay'')
   \<and> calls (snd (snd (decor_timing
          \<lparr>activate = True, return_time = False, factor = 1000, split_before = False,
           split_after = False, times_opt = 3\<rparr> yay () 0 run0))) = 3
   \<and> fst (decor_timing
          \<lparr>activate = True, return_time = True, factor = 1000, split_before = False,
           split_after = False, times_opt = 3\<rparr> yay () 0 run0) = Inr (FloatV 300)"
proof -
  have a: "returns_all (Suc 2) yay () run0"
    by (simp add: eval_nat_numeral yay_eval)
  have b: "fst (invoke yay () (after_calls yay () 2 run0)) = Inr (StrV ''yay'')"
    by (simp add: yay_eval)
  have d: "clock (world (after_calls yay () 3 run0)) = 3 / 10" "clock (world run0) = 0"
    by (simp_all add: eval_nat_numeral yay_eval run0_def world0_def)
  from timing_runs_times_returns_last [of
      "\<lparr>activate = True, return_time = False, factor = 1000, split_before = False,
        split_after = False, times_opt = 3\<rparr>" 2 yay "()" run0 "StrV ''yay''" 0, OF _ _ a b]
    timing_runs_times_returns_last [of
      "\<lparr>activate = True, return_time = True, factor = 1000, split_before = False,
        split_after = False, times_opt = 3\<rparr>" 2 yay "()" run0 "StrV ''yay''" 0, OF _ _ a b]
  show ?thesis
    by (simp add: d calls_run0 del: after_calls.simps)
qed

text \<open>
  C9. Timing switched off. With \<^verbatim>\<open>activate\<close> false, \<^verbatim>\<open>decor_timing\<close> and
  \<^verbatim>\<open>Timing.__call__\<close> return the target itself: for every input, a call of what they
  return is one invocation of the target, with its result and its effects, and leaves the
  decorator's counter as it was.
\<close>

theorem timing_inactive_returns_target:
  "\<not> activate opts \<Longrightarrow> \<not> activate self
   \<Longrightarrow> decor_timing opts func args cell r
         = (fst (invoke func args r), cell, snd (invoke func args r))
       \<and> Timing_call self func args obj r
         = (fst (invoke func args r), obj, snd (invoke func args r))
       \<and> calls (snd (snd (decor_timing opts func args cell r))) = calls r + 1
       \<and> calls (snd (snd (Timing_call self func args obj r))) = calls r + 1"
  by (cases "invoke func args r")
    (use calls_invoke [of func args r] in
      \<open>simp add: decor_timing_def Timing_call_def plain_call_def\<close>)

theorem timing_inactive_returns_target_witness:
  "decor_timing
      \<lparr>activate = False, return_time = False, factor = 1000, split_before = False,
       split_after = False, times_opt = 3\<rparr> yay () 0 run0
     = (Inr (StrV ''yay''), 0, snd (invoke yay () run0))
   \<and> Timing_call (Timing_init False True 1000 True True 3) yay ()
        (Timing_init False True 1000 True True 3) run0
     = (Inr (StrV ''yay''), Timing_init False True 1000 True True 3, snd (invoke yay () run0))
   \<and> calls (snd (invoke yay () run0)) = 1"
  using timing_inactive_returns_target [of
      "\<lparr>activate = False, return_time = False, factor = 1000, split_before = False,
        split_after = False, times_opt = 3\<rparr>" "Timing_init False True 1000 True True 3"
      yay "()" 0 run0 "Timing_init False True 1000 True True 3"]
  by (simp add: Timing_init_def yay_eval calls_run0)

text \<open>
  C5. The wrapper of a \<^verbatim>\<open>Timing\<close> object raises for a target that does not: with the
  default options (\<^verbatim>\<open>Timing()\<close>) on the docstring's target, in the namespace the module
  has after its import, the call invokes the target once and then raises
  \<^verbatim>\<open>NameError: name 'times' is not defined\<close> at line 154.
\<close>

theorem Timing_wrapper_raises_NameError:
  "fst (invoke yay () run0) = Inr (StrV ''yay'')
   \<and> fst (Timing_call (Timing_init True False 1000 False False 1) yay ()
            (Timing_init True False 1000 False False 1) run0)
       = Inl (Exc NameError (''name '' @ [CHR 0x27] @ ''times'' @ [CHR 0x27] @ '' is not defined''))
   \<and> calls (snd (snd (Timing_call (Timing_init True False 1000 False False 1) yay ()
            (Timing_init True False 1000 False False 1) run0))) = 1"
  by (simp add: Timing_call_def Timing_wrap_func_def Timing_init_def yay_eval run0_def world0_def
      load_global_def module_globals_times Let_def)


text \<open>
  The stateless wrapper raises for a target that does not when \<^verbatim>\<open>times=0\<close>: the loop
  never binds \<^verbatim>\<open>ret\<close>, and \<^verbatim>\<open>return ret\<close> raises \<^verbatim>\<open>UnboundLocalError\<close>.
\<close>

lemma timing_zero_times_unbound:
  "fst (timing_wrap_func
          \<lparr>activate = True, return_time = False, factor = 1000, split_before = False,
           split_after = False, times_opt = 0\<rparr> yay () 0 run0)
     = Inl (Exc UnboundLocalError ''local variable ret referenced before assignment'')"
  by (simp add: timing_wrap_func_def return_ret_def Let_def)

section \<open>Properties of reduce_query\<close>

lemma module_globals_datetime: "module_globals ''datetime'' = None"
  by (simp add: module_globals_def)

lemma module_globals_pd: "module_globals ''pd'' = None"
  by (simp add: module_globals_def)

lemma query_eval:
  "invoke query () r =
     (Inr (FrameV [[''id'', ''n''], [''1'', str_nat (user (world r))]]),
      r\<lparr>world := (world r)\<lparr>user := user (world r) + 1\<rparr>, calls := calls r + 1\<rparr>)"
  by (simp add: invoke_def query_def)

lemma file_date_of_frame:
  "file_date_of fp r = (res, r1) \<Longrightarrow> world r1 = world r \<and> calls r1 = calls r"
  by (auto simp: file_date_of_def getmtime_def split: option.splits prod.splits sum.splits if_splits)

lemma to_csv_calls: "to_csv d fp r = (res, r1) \<Longrightarrow> calls r1 = calls r"
  by (auto simp: to_csv_def split: option.splits pyval.splits)

lemma read_csv_calls: "read_csv fp r = (res, r1) \<Longrightarrow> calls r1 = calls r"
  by (auto simp: read_csv_def split: option.splits sum.splits prod.splits)

lemma now_date_value: "now_date w = Inr d \<Longrightarrow> d = date_of (clock w)"
  by (auto simp: now_date_def split: sum.splits)

text \<open>
  C10. With \<^verbatim>\<open>always_query\<close> set, a call of the wrapper is exactly one invocation of
  the target: it returns (or raises) what the target does, the run it leaves is the one
  the target left, and the closure is unchanged, so neither \<^verbatim>\<open>df\<close> nor \<^verbatim>\<open>df_date\<close>
  is modified; the wrapper performs no file operation (no stat, no read, no write).
\<close>

theorem reduce_query_always_query_bypasses:
  "always_query c \<Longrightarrow>
     reduce_query_wrapper c args r
       = (fst (invoke (rq_func c) args r), c, snd (invoke (rq_func c) args r))
     \<and> calls (snd (snd (reduce_query_wrapper c args r))) = calls r + 1
     \<and> io (snd (snd (reduce_query_wrapper c args r))) = io r
     \<and> df (fst (snd (reduce_query_wrapper c args r))) = df c
     \<and> df_date (fst (snd (reduce_query_wrapper c args r))) = df_date c"
  by (cases "invoke (rq_func c) args r")
    (use calls_invoke [of "rq_func c" args r] io_invoke [of "rq_func c" args r] in
      \<open>simp add: reduce_query_wrapper_def\<close>)

theorem reduce_query_always_query_bypasses_witness:
  "fst (reduce_query_wrapper (reduce_query (Some ''cache.csv'') True query) () run0)
     = Inr (FrameV [[''id'', ''n''], [''1'', ''0'']])
   \<and> fst (snd (reduce_query_wrapper (reduce_query (Some ''cache.csv'') True query) () run0))
     = reduce_query (Some ''cache.csv'') True query
   \<and> calls (snd (snd (reduce_query_wrapper (reduce_query (Some ''cache.csv'') True query) ()
        run0))) = 1
   \<and> io (snd (snd (reduce_query_wrapper (reduce_query (Some ''cache.csv'') True query) ()
        run0))) = []"
proof -
  have a: "always_query (reduce_query (Some ''cache.csv'') True query)"
    by (simp add: reduce_query_def)
  have f: "rq_func (reduce_query (Some ''cache.csv'') True query) = query"
    by (simp add: reduce_query_def)
  have u: "user (world run0) = 0" "io run0 = []"
    by (simp_all add: run0_def world0_def)
  from reduce_query_always_query_bypasses [OF a, of "()" run0] show ?thesis
    by (simp add: f query_eval u calls_run0 digit_def)
qed

text \<open>
  C2. On the module as it is imported, two calls of a \<^verbatim>\<open>reduce_query\<close> wrapper on the
  same day, with \<^verbatim>\<open>always_query\<close> unset and no cache file yet, both raise
  \<^verbatim>\<open>NameError: name 'datetime' is not defined\<close> (line 399) and the target, which
  would return a frame, is never invoked.
\<close>

theorem reduce_query_raises_NameError:
  "fst (invoke query () run0) = Inr (FrameV [[''id'', ''n''], [''1'', ''0'']])
   \<and> fst (outer_calls reduce_query_wrapper (reduce_query (Some ''cache.csv'') False query)
            [(), ()] run0)
       = [Inl (Exc NameError (''name '' @ [CHR 0x27] @ ''datetime'' @ [CHR 0x27] @ '' is not defined'')),
          Inl (Exc NameError (''name '' @ [CHR 0x27] @ ''datetime'' @ [CHR 0x27] @ '' is not defined''))]
   \<and> calls (snd (snd (outer_calls reduce_query_wrapper
            (reduce_query (Some ''cache.csv'') False query) [(), ()] run0))) = 0"
  by (simp add: query_eval reduce_query_wrapper_def reduce_query_def file_date_of_def getmtime_def
      now_date_def the_module_def load_global_def run0_def world0_def module_globals_datetime
      isinstance_def digit_def)

text \<open>
  What the wrapper's branches do once the two names are bound. On any namespace the
  target is invoked only when both the date in memory and the date of the file differ
  from today.
\<close>

lemma reduce_query_invokes_only_when_stale:
  assumes aq: "\<not> always_query c"
    and inv: "calls (snd (snd (reduce_query_wrapper c args r))) \<noteq> calls r"
  shows "df_date c \<noteq> Some (date_of (clock (world r)))
       \<and> fst (file_date_of (file_path c) r) \<noteq> Inr (Some (date_of (clock (world r))))"
proof -
  obtain fres r1 where fd: "file_date_of (file_path c) r = (fres, r1)"
    by (cases "file_date_of (file_path c) r") auto
  from file_date_of_frame [OF fd] have w1: "world r1 = world r" and c1: "calls r1 = calls r"
    by simp_all
  show ?thesis
  proof (cases fres)
    case (Inl e)
    with fd inv aq c1 show ?thesis
      by (simp add: reduce_query_wrapper_def)
  next
    case (Inr file_date)
    show ?thesis
    proof (cases "now_date (world r1)")
      case (Inl e)
      with fd Inr inv aq c1 show ?thesis
        by (simp add: reduce_query_wrapper_def)
    next
      case today: (Inr today)
      from now_date_value [OF today] w1 have t: "today = date_of (clock (world r))"
        by simp
      show ?thesis
      proof (cases "df_date c = Some today")
        case True
        with fd Inr today inv aq c1 show ?thesis
          by (auto simp: reduce_query_wrapper_def Let_def dest: to_csv_calls
              split: prod.splits sum.splits if_splits)
      next
        case mem: False
        show ?thesis
        proof (cases "file_date = Some today")
          case True
          with mem fd Inr today inv aq c1 show ?thesis
            by (auto simp: reduce_query_wrapper_def Let_def dest: read_csv_calls
                split: prod.splits sum.splits if_splits)
        next
          case False
          with mem fd Inr t show ?thesis
            by simp
        qed
      qed
    qed
  qed
qed


text \<open>
  With \<^verbatim>\<open>datetime\<close> and \<^verbatim>\<open>pd\<close> bound: two calls on day 0 invoke the target once
  and write the file; a call on day 1 invokes it again once and overwrites the file.
\<close>

lemma reduce_query_with_imports_daily:
  "(case outer_calls reduce_query_wrapper (reduce_query (Some ''cache.csv'') False query)
           [(), ()] (imported_run 1000) of
      (ress, c, r) \<Rightarrow>
        ress = [Inr (FrameV [[''id'', ''n''], [''1'', ''0'']]),
                Inr (FrameV [[''id'', ''n''], [''1'', ''0'']])]
        \<and> calls r = 1 \<and> df_date c = Some 0
        \<and> files (world r) ''cache.csv'' = Some (FrameV [[''id'', ''n''], [''1'', ''0'']], 1000)
        \<and> (case reduce_query_wrapper c ()
                   (r\<lparr>world := (world r)\<lparr>clock := 90000\<rparr>\<rparr>) of
             (res, c', r') \<Rightarrow>
               res = Inr (FrameV [[''id'', ''n''], [''1'', ''1'']])
               \<and> calls r' = 2 \<and> df_date c' = Some 1
               \<and> files (world r') ''cache.csv''
                   = Some (FrameV [[''id'', ''n''], [''1'', ''1'']], 90000)))"
  by (simp add: query_eval reduce_query_wrapper_def reduce_query_def file_date_of_def getmtime_def
      now_date_def the_module_def load_global_def imported_run_def world0_def with_imports_def
      to_csv_def date_of_def isinstance_def digit_def Let_def)

end
